theory Spec2Isabelle
  imports Main
begin

section \<open>Client-side stores of the math-tutoring frontend\<close>

text \<open>
  The development embeds the two Zustand stores of the frontend, the answer store
  (\<open>store/answerStore\<close>) and the mission store (\<open>store/missionStore\<close>), together with
  the types of \<open>types/index.ts\<close> they handle and the calls of \<open>services/api.ts\<close> they
  issue.

  A store action is a function from the store's state to its new state. What an action
  does besides updating the store is returned next to the state: the list of its effects
  (backend requests, object URLs revoked, timers set) and how its promise settles.
  The backend is outside the program, so an asynchronous action takes the outcome of its
  request as an argument.

  Record fields are global constants in HOL, so the fields that several interfaces of
  \<open>types/index.ts\<close> share (\<open>id\<close>, \<open>mission_id\<close>, \<open>score\<close>, \<open>message\<close>, ...) carry a prefix
  for their interface: \<open>p_\<close> for \<open>Problem\<close>, \<open>m_\<close> for \<open>Mission\<close>, \<open>mp_\<close> for
  \<open>MissionProgress\<close>, \<open>a_\<close> for \<open>Answer\<close>, \<open>ar_\<close> for \<open>AnswerResult\<close>, \<open>err_\<close> for
  \<open>AppError\<close>; the \<open>file\<close> of a \<open>CapturedImage\<close> is \<open>ci_file\<close>, since \<open>file\<close> is a keyword
  of Isabelle. The \<open>error\<close> field of the answer store is \<open>answerError\<close>, the name the
  mission page gives it.
\<close>

subsection \<open>types/index.ts\<close>

text \<open>
  A \<open>File\<close> is opaque to the stores; it is represented by a name. Numbers are integers
  here: the stores use them as identifiers, counts and millisecond clock readings.
\<close>

type_synonym js_file = string

text \<open>
  A field of a JSON object read with \<open>=== null\<close> has three cases: the field is absent
  (\<open>undefined\<close>), it is \<open>null\<close>, or it has a value.
\<close>

datatype 'a field = Undefined | Null | Value 'a

record problem =
  p_id :: int
  p_title :: string
  p_content :: string
  p_solution :: "string option"
  p_difficulty_level :: int
  p_topic :: string
  p_subtopic :: "string option"
  p_estimated_time :: "int option"
  p_keywords :: "string list option"

datatype mission_status = Pending | In_progress | Completed

record mission =
  m_id :: int
  m_user_id :: int
  m_name :: string
  m_description :: "string option"
  m_status :: mission_status
  m_total_problems :: int
  m_completed_problems :: int
  m_target_score :: "int option"
  m_actual_score :: "int option"
  m_start_time :: "string option"
  m_end_time :: "string option"
  m_problems :: "problem list option"

record mission_progress =
  mp_mission_id :: int
  mp_total_problems :: int
  mp_completed_problems :: int
  mp_current_problem :: "problem option"
  mp_progress_percentage :: int
  mp_estimated_remaining_time :: "int option"

record answer =
  a_id :: int
  a_user_id :: int
  a_mission_id :: int
  a_problem_id :: int
  a_answer_images :: "string list"
  a_extracted_text :: "string option"
  a_extracted_markdown :: "string option"
  a_score :: "int field"
  a_ai_feedback :: "string option"
  a_key_concepts_identified :: "string list"
  a_mistakes_detected :: "string list"
  a_time_spent :: "int option"
  a_submitted_at :: "string option"
  a_scored_at :: "string option"

record answer_result =
  ar_answer_id :: int
  ar_score :: int
  ar_feedback :: string
  ar_concepts_learned :: "string list"
  ar_areas_for_improvement :: "string list"
  ar_next_recommendations :: "string list"

record 'a api_response =
  success :: bool
  message :: string
  data :: "'a option"
  resp_timestamp :: string

record app_error =
  err_message :: string
  err_code :: "string option"
  err_details :: "string option"

record captured_image =
  ci_file :: js_file
  preview :: string
  timestamp :: int

datatype mission_type = DAILY | REVIEW | CHALLENGE | ASSESSMENT

subsection \<open>services/api.ts\<close>

text \<open>
  The calls of \<open>ApiService\<close> that the stores make, with their arguments. The payloads of
  the responses follow the return types declared in \<open>services/api.ts\<close>; a problem inside
  a payload may be \<open>null\<close> on the wire, and so may the \<open>result\<close> of an answer that is not
  graded yet.
\<close>

datatype request =
    GetCurrentMission
  | StartMission mission_type
  | GetMissionProgress int
  | CompleteMission int
  | GetNextProblem int
  | SubmitAnswer int int "js_file list" "int option"
  | GetAnswerResult int

record current_mission_data =
  cm_mission :: mission
  cm_current_problem :: "problem option"
  cm_progress :: mission_progress

record start_mission_data =
  sm_mission :: mission
  sm_first_problem :: "problem option"

record complete_mission_data =
  co_mission :: mission
  co_completed :: bool

record submit_answer_data =
  answer_id :: int
  status :: string
  image_count :: int

record answer_result_data =
  rd_result :: "answer_result option"
  rd_answer :: answer
  rd_problem_info :: "string \<times> string"

text \<open>
  A value thrown in JavaScript is an \<open>Error\<close> object with its message, or something else.
  \<open>ApiService.request\<close> and \<open>uploadRequest\<close> throw an \<open>Error\<close> when the transport fails
  or the status is not 2xx, and return the parsed envelope otherwise.
\<close>

datatype thrown = Error string | NonError

datatype 'a outcome = Resolves "'a api_response" | Rejects thrown

datatype 'a settled = Fulfilled 'a | Rejected thrown

datatype effect =
    Fetch request
  | RevokeObjectURL string
  | SetTimeout nat int

subsection \<open>Messages of the stores\<close>

text \<open>
  The literal messages of the source are Korean; each is given by the bytes of its
  UTF-8 encoding, with a translation as a comment.
\<close>

definition msg_image_required :: string where
  \<comment> \<open>"An answer image is required."\<close>
  "msg_image_required =
    [CHR 0xEB, CHR 0x8B, CHR 0xB5, CHR 0xEC, CHR 0x95, CHR 0x88, CHR 0x20, CHR 0xEC,
     CHR 0x9D, CHR 0xB4, CHR 0xEB, CHR 0xAF, CHR 0xB8, CHR 0xEC, CHR 0xA7, CHR 0x80,
     CHR 0xEA, CHR 0xB0, CHR 0x80, CHR 0x20, CHR 0xED, CHR 0x95, CHR 0x84, CHR 0xEC,
     CHR 0x9A, CHR 0x94, CHR 0xED, CHR 0x95, CHR 0xA9, CHR 0xEB, CHR 0x8B, CHR 0x88,
     CHR 0xEB, CHR 0x8B, CHR 0xA4, CHR 0x2E]"

definition msg_submit_failed :: string where
  \<comment> \<open>"Submitting the answer failed."\<close>
  "msg_submit_failed =
    [CHR 0xEB, CHR 0x8B, CHR 0xB5, CHR 0xEC, CHR 0x95, CHR 0x88, CHR 0x20, CHR 0xEC,
     CHR 0xA0, CHR 0x9C, CHR 0xEC, CHR 0xB6, CHR 0x9C, CHR 0xEC, CHR 0x97, CHR 0x90,
     CHR 0x20, CHR 0xEC, CHR 0x8B, CHR 0xA4, CHR 0xED, CHR 0x8C, CHR 0xA8, CHR 0xED,
     CHR 0x96, CHR 0x88, CHR 0xEC, CHR 0x8A, CHR 0xB5, CHR 0xEB, CHR 0x8B, CHR 0x88,
     CHR 0xEB, CHR 0x8B, CHR 0xA4, CHR 0x2E]"

definition msg_submit_error :: string where
  \<comment> \<open>"An error occurred while submitting the answer."\<close>
  "msg_submit_error =
    [CHR 0xEB, CHR 0x8B, CHR 0xB5, CHR 0xEC, CHR 0x95, CHR 0x88, CHR 0x20, CHR 0xEC,
     CHR 0xA0, CHR 0x9C, CHR 0xEC, CHR 0xB6, CHR 0x9C, CHR 0x20, CHR 0xEC, CHR 0xA4,
     CHR 0x91, CHR 0x20, CHR 0xEC, CHR 0x98, CHR 0xA4, CHR 0xEB, CHR 0xA5, CHR 0x98,
     CHR 0xEA, CHR 0xB0, CHR 0x80, CHR 0x20, CHR 0xEB, CHR 0xB0, CHR 0x9C, CHR 0xEC,
     CHR 0x83, CHR 0x9D, CHR 0xED, CHR 0x96, CHR 0x88, CHR 0xEC, CHR 0x8A, CHR 0xB5,
     CHR 0xEB, CHR 0x8B, CHR 0x88, CHR 0xEB, CHR 0x8B, CHR 0xA4, CHR 0x2E]"

definition msg_result_failed :: string where
  \<comment> \<open>"Fetching the answer result failed."\<close>
  "msg_result_failed =
    [CHR 0xEB, CHR 0x8B, CHR 0xB5, CHR 0xEC, CHR 0x95, CHR 0x88, CHR 0x20, CHR 0xEA,
     CHR 0xB2, CHR 0xB0, CHR 0xEA, CHR 0xB3, CHR 0xBC, CHR 0x20, CHR 0xEC, CHR 0xA1,
     CHR 0xB0, CHR 0xED, CHR 0x9A, CHR 0x8C, CHR 0xEC, CHR 0x97, CHR 0x90, CHR 0x20,
     CHR 0xEC, CHR 0x8B, CHR 0xA4, CHR 0xED, CHR 0x8C, CHR 0xA8, CHR 0xED, CHR 0x96,
     CHR 0x88, CHR 0xEC, CHR 0x8A, CHR 0xB5, CHR 0xEB, CHR 0x8B, CHR 0x88, CHR 0xEB,
     CHR 0x8B, CHR 0xA4, CHR 0x2E]"

definition msg_result_error :: string where
  \<comment> \<open>"An error occurred while fetching the answer result."\<close>
  "msg_result_error =
    [CHR 0xEB, CHR 0x8B, CHR 0xB5, CHR 0xEC, CHR 0x95, CHR 0x88, CHR 0x20, CHR 0xEA,
     CHR 0xB2, CHR 0xB0, CHR 0xEA, CHR 0xB3, CHR 0xBC, CHR 0x20, CHR 0xEC, CHR 0xA1,
     CHR 0xB0, CHR 0xED, CHR 0x9A, CHR 0x8C, CHR 0x20, CHR 0xEC, CHR 0xA4, CHR 0x91,
     CHR 0x20, CHR 0xEC, CHR 0x98, CHR 0xA4, CHR 0xEB, CHR 0xA5, CHR 0x98, CHR 0xEA,
     CHR 0xB0, CHR 0x80, CHR 0x20, CHR 0xEB, CHR 0xB0, CHR 0x9C, CHR 0xEC, CHR 0x83,
     CHR 0x9D, CHR 0xED, CHR 0x96, CHR 0x88, CHR 0xEC, CHR 0x8A, CHR 0xB5, CHR 0xEB,
     CHR 0x8B, CHR 0x88, CHR 0xEB, CHR 0x8B, CHR 0xA4, CHR 0x2E]"

definition msg_fetch_mission_error :: string where
  \<comment> \<open>"An error occurred while fetching the mission."\<close>
  "msg_fetch_mission_error =
    [CHR 0xEB, CHR 0xAF, CHR 0xB8, CHR 0xEC, CHR 0x85, CHR 0x98, CHR 0x20, CHR 0xEC,
     CHR 0xA1, CHR 0xB0, CHR 0xED, CHR 0x9A, CHR 0x8C, CHR 0x20, CHR 0xEC, CHR 0xA4,
     CHR 0x91, CHR 0x20, CHR 0xEC, CHR 0x98, CHR 0xA4, CHR 0xEB, CHR 0xA5, CHR 0x98,
     CHR 0xEA, CHR 0xB0, CHR 0x80, CHR 0x20, CHR 0xEB, CHR 0xB0, CHR 0x9C, CHR 0xEC,
     CHR 0x83, CHR 0x9D, CHR 0xED, CHR 0x96, CHR 0x88, CHR 0xEC, CHR 0x8A, CHR 0xB5,
     CHR 0xEB, CHR 0x8B, CHR 0x88, CHR 0xEB, CHR 0x8B, CHR 0xA4, CHR 0x2E]"

definition msg_start_failed :: string where
  \<comment> \<open>"Starting the mission failed."\<close>
  "msg_start_failed =
    [CHR 0xEB, CHR 0xAF, CHR 0xB8, CHR 0xEC, CHR 0x85, CHR 0x98, CHR 0x20, CHR 0xEC,
     CHR 0x8B, CHR 0x9C, CHR 0xEC, CHR 0x9E, CHR 0x91, CHR 0xEC, CHR 0x97, CHR 0x90,
     CHR 0x20, CHR 0xEC, CHR 0x8B, CHR 0xA4, CHR 0xED, CHR 0x8C, CHR 0xA8, CHR 0xED,
     CHR 0x96, CHR 0x88, CHR 0xEC, CHR 0x8A, CHR 0xB5, CHR 0xEB, CHR 0x8B, CHR 0x88,
     CHR 0xEB, CHR 0x8B, CHR 0xA4, CHR 0x2E]"

definition msg_start_error :: string where
  \<comment> \<open>"An error occurred while starting the mission."\<close>
  "msg_start_error =
    [CHR 0xEB, CHR 0xAF, CHR 0xB8, CHR 0xEC, CHR 0x85, CHR 0x98, CHR 0x20, CHR 0xEC,
     CHR 0x8B, CHR 0x9C, CHR 0xEC, CHR 0x9E, CHR 0x91, CHR 0x20, CHR 0xEC, CHR 0xA4,
     CHR 0x91, CHR 0x20, CHR 0xEC, CHR 0x98, CHR 0xA4, CHR 0xEB, CHR 0xA5, CHR 0x98,
     CHR 0xEA, CHR 0xB0, CHR 0x80, CHR 0x20, CHR 0xEB, CHR 0xB0, CHR 0x9C, CHR 0xEC,
     CHR 0x83, CHR 0x9D, CHR 0xED, CHR 0x96, CHR 0x88, CHR 0xEC, CHR 0x8A, CHR 0xB5,
     CHR 0xEB, CHR 0x8B, CHR 0x88, CHR 0xEB, CHR 0x8B, CHR 0xA4, CHR 0x2E]"

definition msg_problem_error :: string where
  \<comment> \<open>"An error occurred while fetching the problem."\<close>
  "msg_problem_error =
    [CHR 0xEB, CHR 0xAC, CHR 0xB8, CHR 0xEC, CHR 0xA0, CHR 0x9C, CHR 0x20, CHR 0xEC,
     CHR 0xA1, CHR 0xB0, CHR 0xED, CHR 0x9A, CHR 0x8C, CHR 0x20, CHR 0xEC, CHR 0xA4,
     CHR 0x91, CHR 0x20, CHR 0xEC, CHR 0x98, CHR 0xA4, CHR 0xEB, CHR 0xA5, CHR 0x98,
     CHR 0xEA, CHR 0xB0, CHR 0x80, CHR 0x20, CHR 0xEB, CHR 0xB0, CHR 0x9C, CHR 0xEC,
     CHR 0x83, CHR 0x9D, CHR 0xED, CHR 0x96, CHR 0x88, CHR 0xEC, CHR 0x8A, CHR 0xB5,
     CHR 0xEB, CHR 0x8B, CHR 0x88, CHR 0xEB, CHR 0x8B, CHR 0xA4, CHR 0x2E]"

definition msg_not_finished :: string where
  \<comment> \<open>"There are problems that are not completed yet."\<close>
  "msg_not_finished =
    [CHR 0xEC, CHR 0x95, CHR 0x84, CHR 0xEC, CHR 0xA7, CHR 0x81, CHR 0x20, CHR 0xEC,
     CHR 0x99, CHR 0x84, CHR 0xEB, CHR 0xA3, CHR 0x8C, CHR 0xEB, CHR 0x90, CHR 0x98,
     CHR 0xEC, CHR 0xA7, CHR 0x80, CHR 0x20, CHR 0xEC, CHR 0x95, CHR 0x8A, CHR 0xEC,
     CHR 0x9D, CHR 0x80, CHR 0x20, CHR 0xEB, CHR 0xAC, CHR 0xB8, CHR 0xEC, CHR 0xA0,
     CHR 0x9C, CHR 0xEA, CHR 0xB0, CHR 0x80, CHR 0x20, CHR 0xEC, CHR 0x9E, CHR 0x88,
     CHR 0xEC, CHR 0x8A, CHR 0xB5, CHR 0xEB, CHR 0x8B, CHR 0x88, CHR 0xEB, CHR 0x8B,
     CHR 0xA4, CHR 0x2E]"

definition msg_complete_error :: string where
  \<comment> \<open>"An error occurred while completing the mission."\<close>
  "msg_complete_error =
    [CHR 0xEB, CHR 0xAF, CHR 0xB8, CHR 0xEC, CHR 0x85, CHR 0x98, CHR 0x20, CHR 0xEC,
     CHR 0x99, CHR 0x84, CHR 0xEB, CHR 0xA3, CHR 0x8C, CHR 0x20, CHR 0xEC, CHR 0xB2,
     CHR 0x98, CHR 0xEB, CHR 0xA6, CHR 0xAC, CHR 0x20, CHR 0xEC, CHR 0xA4, CHR 0x91,
     CHR 0x20, CHR 0xEC, CHR 0x98, CHR 0xA4, CHR 0xEB, CHR 0xA5, CHR 0x98, CHR 0xEA,
     CHR 0xB0, CHR 0x80, CHR 0x20, CHR 0xEB, CHR 0xB0, CHR 0x9C, CHR 0xEC, CHR 0x83,
     CHR 0x9D, CHR 0xED, CHR 0x96, CHR 0x88, CHR 0xEC, CHR 0x8A, CHR 0xB5, CHR 0xEB,
     CHR 0x8B, CHR 0x88, CHR 0xEB, CHR 0x8B, CHR 0xA4, CHR 0x2E]"

subsection \<open>Idioms of the source\<close>

text \<open>\<open>{ message: errorMessage }\<close>: an \<open>AppError\<close> with its message only.\<close>

definition app_error_of :: "string \<Rightarrow> app_error" where
  "app_error_of m = \<lparr>err_message = m, err_code = None, err_details = None\<rparr>"

text \<open>\<open>response.message || fallback\<close>: the empty string is falsy.\<close>

definition or_default :: "string \<Rightarrow> string \<Rightarrow> string" where
  "or_default m fallback = (if m = [] then fallback else m)"

text \<open>\<open>error instanceof Error ? error.message : fallback\<close>, the head of every catch block.\<close>

definition error_message_of :: "thrown \<Rightarrow> string \<Rightarrow> string" where
  "error_message_of e fallback = (case e of Error m \<Rightarrow> m | NonError \<Rightarrow> fallback)"

text \<open>
  The body of the try blocks of \<open>submitAnswer\<close>, \<open>getAnswerResult\<close> and \<open>startNewMission\<close>
  up to the use of the payload: the awaited call throws what it rejects with, and
  \<open>if (response.success && response.data) { ... } else { throw new Error(response.message
  || fallback) }\<close> throws on an envelope that is not a success with a payload. A payload is
  an object, so it is truthy whenever it is there.
\<close>

definition payload_or_throw :: "'a outcome \<Rightarrow> string \<Rightarrow> thrown + 'a" where
  "payload_or_throw out fallback =
     (case out of
        Rejects e \<Rightarrow> Inl e
      | Resolves response \<Rightarrow>
          (case data response of
             Some d \<Rightarrow>
               if success response then Inr d
               else Inl (Error (or_default (message response) fallback))
           | None \<Rightarrow> Inl (Error (or_default (message response) fallback))))"

text \<open>
  \<open>array.filter((x, i) => p(x, i))\<close>: the elements, in order, for which the callback
  holds of the element and its index; the index counts from 0.
\<close>

fun filter_indexed :: "('a \<Rightarrow> nat \<Rightarrow> bool) \<Rightarrow> nat \<Rightarrow> 'a list \<Rightarrow> 'a list" where
  "filter_indexed p i [] = []"
| "filter_indexed p i (x # xs) =
     (if p x i then x # filter_indexed p (Suc i) xs else filter_indexed p (Suc i) xs)"

subsection \<open>The answer store\<close>

record answer_state =
  currentAnswer :: "answer option"
  answerResult :: "answer_result option"
  capturedImages :: "captured_image list"
  isSubmitting :: bool
  isProcessing :: bool
  answerError :: "app_error option"

definition initial_answer_state :: answer_state where
  "initial_answer_state =
     \<lparr>currentAnswer = None, answerResult = None, capturedImages = [],
      isSubmitting = False, isProcessing = False, answerError = None\<rparr>"

definition addCapturedImage :: "answer_state \<Rightarrow> captured_image \<Rightarrow> answer_state" where
  "addCapturedImage st img =
     st\<lparr>capturedImages := capturedImages st @ [img], answerError := None\<rparr>"

definition removeCapturedImage :: "answer_state \<Rightarrow> int \<Rightarrow> answer_state" where
  "removeCapturedImage st index =
     st\<lparr>capturedImages := filter_indexed (\<lambda>_ i. int i \<noteq> index) 0 (capturedImages st)\<rparr>"

text \<open>
  \<open>clearCapturedImages\<close> and \<open>reset\<close> call \<open>URL.revokeObjectURL(image.preview)\<close> for each
  staged image, in order, and then set the state.
\<close>

definition clearCapturedImages :: "answer_state \<Rightarrow> answer_state \<times> effect list" where
  "clearCapturedImages st =
     (st\<lparr>capturedImages := []\<rparr>,
      map (\<lambda>img. RevokeObjectURL (preview img)) (capturedImages st))"

definition reset :: "answer_state \<Rightarrow> answer_state \<times> effect list" where
  "reset st =
     (st\<lparr>currentAnswer := None, answerResult := None, capturedImages := [],
         isSubmitting := False, isProcessing := False, answerError := None\<rparr>,
      map (\<lambda>img. RevokeObjectURL (preview img)) (capturedImages st))"

text \<open>
  \<open>submitAnswer\<close> is an async function: it runs up to its \<open>await\<close> when it is called
  (\<open>submitAnswer_begin\<close>: the check of the staged images, the first \<open>set\<close> and the
  request), and from there when the request settles (\<open>submitAnswer_resume\<close>, on the state
  the store has by then). \<open>submitAnswer_begin\<close> returns the value thrown by the check, or
  the request sent.
\<close>

definition submitAnswer_begin ::
  "answer_state \<Rightarrow> int \<Rightarrow> int \<Rightarrow> int option \<Rightarrow> answer_state \<times> (thrown + request)" where
  "submitAnswer_begin st missionId problemId timeSpent =
     (if length (capturedImages st) = 0 then
        (st\<lparr>answerError := Some (app_error_of msg_image_required)\<rparr>,
         Inl (Error msg_image_required))
      else
        (st\<lparr>isSubmitting := True, answerError := None\<rparr>,
         Inr (SubmitAnswer missionId problemId (map ci_file (capturedImages st)) timeSpent)))"

definition submitAnswer_resume ::
  "answer_state \<Rightarrow> submit_answer_data outcome \<Rightarrow> answer_state \<times> int settled" where
  "submitAnswer_resume st out =
     (case payload_or_throw out msg_submit_failed of
        Inr d \<Rightarrow> (st\<lparr>isSubmitting := False\<rparr>, Fulfilled (answer_id d))
      | Inl e \<Rightarrow>
          (st\<lparr>isSubmitting := False,
              answerError := Some (app_error_of (error_message_of e msg_submit_error))\<rparr>,
           Rejected e))"

text \<open>One call of \<open>submitAnswer\<close> with nothing else run on the store before it settles.\<close>

definition submitAnswer ::
  "answer_state \<Rightarrow> int \<Rightarrow> int \<Rightarrow> int option \<Rightarrow> submit_answer_data outcome
    \<Rightarrow> answer_state \<times> effect list \<times> int settled" where
  "submitAnswer st missionId problemId timeSpent out =
     (case submitAnswer_begin st missionId problemId timeSpent of
        (st1, Inl e) \<Rightarrow> (st1, [], Rejected e)
      | (st1, Inr req) \<Rightarrow>
          (case submitAnswer_resume st1 out of (st2, r) \<Rightarrow> (st2, [Fetch req], r)))"

text \<open>
  \<open>getAnswerResult\<close>: the request is sent in every call; a payload whose answer has
  \<open>score === null\<close> sets \<open>isProcessing\<close> again and sets a timer of 5000 ms that calls
  \<open>getAnswerResult\<close> with the same identifier.
\<close>

definition getAnswerResult ::
  "answer_state \<Rightarrow> int \<Rightarrow> answer_result_data outcome
    \<Rightarrow> answer_state \<times> effect list \<times> unit settled" where
  "getAnswerResult st answerId out =
     (let st1 = st\<lparr>answerError := None\<rparr> in
      case payload_or_throw out msg_result_failed of
        Inr d \<Rightarrow>
          (let st2 = st1\<lparr>currentAnswer := Some (rd_answer d), answerResult := rd_result d,
                         isProcessing := False\<rparr>
           in if a_score (rd_answer d) = Null then
                (st2\<lparr>isProcessing := True\<rparr>,
                 [Fetch (GetAnswerResult answerId), SetTimeout 5000 answerId],
                 Fulfilled ())
              else (st2, [Fetch (GetAnswerResult answerId)], Fulfilled ()))
      | Inl e \<Rightarrow>
          (st1\<lparr>answerError := Some (app_error_of (error_message_of e msg_result_error)),
               isProcessing := False\<rparr>,
           [Fetch (GetAnswerResult answerId)],
           Rejected e))"

text \<open>
  The event loop around \<open>getAnswerResult\<close>: the first call, then one call for each timer
  that a call has set, when it fires. The outcomes of the successive requests are given
  as a list; the run ends when a call sets no timer, or when the list ends.
\<close>

fun scheduled :: "effect list \<Rightarrow> int option" where
  "scheduled [] = None"
| "scheduled (SetTimeout delay answerId # effs) = Some answerId"
| "scheduled (_ # effs) = scheduled effs"

fun run_polling ::
  "answer_state \<Rightarrow> int \<Rightarrow> answer_result_data outcome list \<Rightarrow> answer_state \<times> effect list" where
  "run_polling st answerId [] = (st, [])"
| "run_polling st answerId (out # outs) =
     (case getAnswerResult st answerId out of
        (st1, effs, r) \<Rightarrow>
          (case scheduled effs of
             None \<Rightarrow> (st1, effs)
           | Some next_id \<Rightarrow>
               (case run_polling st1 next_id outs of (st2, effs2) \<Rightarrow> (st2, effs @ effs2))))"

text \<open>A request outcome that carries an answer whose score is \<open>null\<close>.\<close>

definition ungraded :: "answer_result_data outcome \<Rightarrow> bool" where
  "ungraded out =
     (case payload_or_throw out msg_result_failed of
        Inr d \<Rightarrow> a_score (rd_answer d) = Null
      | Inl e \<Rightarrow> False)"

subsection \<open>The mission store\<close>

record mission_state =
  currentMission :: "mission option"
  currentProblem :: "problem option"
  missionProgress :: "mission_progress option"
  isLoading :: bool
  error :: "app_error option"
  timeSpent :: int
  startTime :: "int option"

definition initial_mission_state :: mission_state where
  "initial_mission_state =
     \<lparr>currentMission = None, currentProblem = None, missionProgress = None,
      isLoading = False, error = None, timeSpent = 0, startTime = None\<rparr>"

text \<open>
  \<open>fetchCurrentMission\<close>: an envelope that is not a success with a payload takes the else
  branch ("no mission in progress"); only a rejected request reaches the catch block.
\<close>

definition fetchCurrentMission ::
  "mission_state \<Rightarrow> current_mission_data outcome
    \<Rightarrow> mission_state \<times> effect list \<times> unit settled" where
  "fetchCurrentMission st out =
     (let st1 = st\<lparr>isLoading := True, error := None\<rparr> in
      case out of
        Resolves response \<Rightarrow>
          (case (success response, data response) of
             (True, Some d) \<Rightarrow>
               (st1\<lparr>currentMission := Some (cm_mission d),
                    currentProblem := cm_current_problem d,
                    missionProgress := Some (cm_progress d),
                    isLoading := False\<rparr>,
                [Fetch GetCurrentMission], Fulfilled ())
           | _ \<Rightarrow>
               (st1\<lparr>currentMission := None, currentProblem := None,
                    missionProgress := None, isLoading := False\<rparr>,
                [Fetch GetCurrentMission], Fulfilled ()))
      | Rejects e \<Rightarrow>
          (st1\<lparr>isLoading := False,
               error := Some (app_error_of (error_message_of e msg_fetch_mission_error))\<rparr>,
           [Fetch GetCurrentMission], Rejected e))"

definition startNewMission ::
  "mission_state \<Rightarrow> mission_type \<Rightarrow> start_mission_data outcome
    \<Rightarrow> mission_state \<times> effect list \<times> unit settled" where
  "startNewMission st missionType out =
     (let st1 = st\<lparr>isLoading := True, error := None\<rparr> in
      case payload_or_throw out msg_start_failed of
        Inr d \<Rightarrow>
          (let progress =
                 \<lparr>mp_mission_id = m_id (sm_mission d),
                  mp_total_problems = m_total_problems (sm_mission d),
                  mp_completed_problems = m_completed_problems (sm_mission d),
                  mp_current_problem = sm_first_problem d,
                  mp_progress_percentage = 0,
                  mp_estimated_remaining_time = None\<rparr>
           in (st1\<lparr>currentMission := Some (sm_mission d),
                   currentProblem := sm_first_problem d,
                   missionProgress := Some progress,
                   isLoading := False\<rparr>,
               [Fetch (StartMission missionType)], Fulfilled ()))
      | Inl e \<Rightarrow>
          (st1\<lparr>isLoading := False,
               error := Some (app_error_of (error_message_of e msg_start_error))\<rparr>,
           [Fetch (StartMission missionType)], Rejected e))"

text \<open>
  \<open>getCurrentProblem\<close> and \<open>updateProgress\<close> return at once without a current mission;
  their catch blocks do not rethrow, so their promises are always fulfilled.
\<close>

definition getCurrentProblem ::
  "mission_state \<Rightarrow> problem outcome \<Rightarrow> mission_state \<times> effect list \<times> unit settled" where
  "getCurrentProblem st out =
     (case currentMission st of
        None \<Rightarrow> (st, [], Fulfilled ())
      | Some cur \<Rightarrow>
          (case out of
             Resolves response \<Rightarrow>
               (case (success response, data response) of
                  (True, Some p) \<Rightarrow>
                    (st\<lparr>currentProblem := Some p\<rparr>,
                     [Fetch (GetNextProblem (m_id cur))], Fulfilled ())
                | _ \<Rightarrow>
                    (st\<lparr>currentProblem := None\<rparr>,
                     [Fetch (GetNextProblem (m_id cur))], Fulfilled ()))
           | Rejects e \<Rightarrow>
               (st\<lparr>error := Some (app_error_of (error_message_of e msg_problem_error))\<rparr>,
                [Fetch (GetNextProblem (m_id cur))], Fulfilled ())))"

definition updateProgress ::
  "mission_state \<Rightarrow> mission_progress outcome
    \<Rightarrow> mission_state \<times> effect list \<times> unit settled" where
  "updateProgress st out =
     (case currentMission st of
        None \<Rightarrow> (st, [], Fulfilled ())
      | Some cur \<Rightarrow>
          (case out of
             Resolves response \<Rightarrow>
               (case (success response, data response) of
                  (True, Some progress) \<Rightarrow>
                    (let st1 = st\<lparr>missionProgress := Some progress\<rparr>
                     in case mp_current_problem progress of
                          Some p \<Rightarrow>
                            (st1\<lparr>currentProblem := Some p\<rparr>,
                             [Fetch (GetMissionProgress (m_id cur))], Fulfilled ())
                        | None \<Rightarrow>
                            (st1\<lparr>currentProblem := None\<rparr>,
                             [Fetch (GetMissionProgress (m_id cur))], Fulfilled ()))
                | _ \<Rightarrow> (st, [Fetch (GetMissionProgress (m_id cur))], Fulfilled ()))
           | Rejects e \<Rightarrow> (st, [Fetch (GetMissionProgress (m_id cur))], Fulfilled ())))"

text \<open>
  \<open>completeMission\<close>: the catch block of the source (\<open>completeMission_catch\<close>) handles what
  the awaited request rejects with and the \<open>Error\<close> thrown when the payload says
  \<open>completed\<close> is false. The \<open>if (response.success && response.data)\<close> of the try block has
  no else branch. On completion the action awaits \<open>updateProgress\<close>, whose request has the
  second outcome given.
\<close>

definition completeMission_catch ::
  "mission_state \<Rightarrow> effect list \<Rightarrow> thrown \<Rightarrow> mission_state \<times> effect list \<times> unit settled" where
  "completeMission_catch st effs e =
     (st\<lparr>isLoading := False,
         error := Some (app_error_of (error_message_of e msg_complete_error))\<rparr>,
      effs, Rejected e)"

definition completeMission ::
  "mission_state \<Rightarrow> complete_mission_data outcome \<Rightarrow> mission_progress outcome
    \<Rightarrow> mission_state \<times> effect list \<times> unit settled" where
  "completeMission st out out_progress =
     (case currentMission st of
        None \<Rightarrow> (st, [], Fulfilled ())
      | Some cur \<Rightarrow>
          (let st1 = st\<lparr>isLoading := True, error := None\<rparr>;
               sent = [Fetch (CompleteMission (m_id cur))]
           in case out of
                Resolves response \<Rightarrow>
                  (case (success response, data response) of
                     (True, Some d) \<Rightarrow>
                       if co_completed d then
                         (case updateProgress
                                 (st1\<lparr>currentMission := Some (co_mission d),
                                      currentProblem := None, isLoading := False\<rparr>)
                                 out_progress of
                            (st2, effs, r) \<Rightarrow> (st2, sent @ effs, Fulfilled ()))
                       else
                         completeMission_catch (st1\<lparr>isLoading := False\<rparr>) sent
                           (Error msg_not_finished)
                   | _ \<Rightarrow> (st1, sent, Fulfilled ()))
              | Rejects e \<Rightarrow> completeMission_catch st1 sent e))"

text \<open>
  The timer. \<open>Date.now()\<close> is the argument \<open>now\<close>, in milliseconds. \<open>if (startTime)\<close> is
  the truthiness of a number or \<open>null\<close>: false for \<open>null\<close> and for 0.
  \<open>Math.floor(x / 1000)\<close> is \<open>div\<close>, which rounds down on the integers.
\<close>

definition truthy :: "int option \<Rightarrow> bool" where
  "truthy v = (case v of None \<Rightarrow> False | Some n \<Rightarrow> n \<noteq> 0)"

definition startTimer :: "mission_state \<Rightarrow> int \<Rightarrow> mission_state" where
  "startTimer st now = st\<lparr>startTime := Some now\<rparr>"

definition stopTimer :: "mission_state \<Rightarrow> int \<Rightarrow> mission_state" where
  "stopTimer st now =
     (if truthy (startTime st) then
        (let elapsed = (now - the (startTime st)) div 1000
         in st\<lparr>timeSpent := timeSpent st + elapsed, startTime := None\<rparr>)
      else st)"

definition resetTimer :: "mission_state \<Rightarrow> mission_state" where
  "resetTimer st = st\<lparr>timeSpent := 0, startTime := None\<rparr>"

definition getTimeSpent :: "mission_state \<Rightarrow> int \<Rightarrow> int" where
  "getTimeSpent st now =
     (if truthy (startTime st) then
        (let currentElapsed = (now - the (startTime st)) div 1000
         in timeSpent st + currentElapsed)
      else timeSpent st)"

subsection \<open>Sequences of calls\<close>

text \<open>
  A sequence of the synchronous actions on the staged images, run on the store together
  with the log of the effects so far.
\<close>

datatype image_cmd =
    AddCapturedImage captured_image
  | RemoveCapturedImage int
  | ClearCapturedImages
  | Reset

fun run_image_cmd :: "answer_state \<times> effect list \<Rightarrow> image_cmd \<Rightarrow> answer_state \<times> effect list" where
  "run_image_cmd (st, log) (AddCapturedImage img) = (addCapturedImage st img, log)"
| "run_image_cmd (st, log) (RemoveCapturedImage index) = (removeCapturedImage st index, log)"
| "run_image_cmd (st, log) ClearCapturedImages =
     (case clearCapturedImages st of (st1, effs) \<Rightarrow> (st1, log @ effs))"
| "run_image_cmd (st, log) Reset =
     (case reset st of (st1, effs) \<Rightarrow> (st1, log @ effs))"

definition run_image_cmds ::
  "answer_state \<times> effect list \<Rightarrow> image_cmd list \<Rightarrow> answer_state \<times> effect list" where
  "run_image_cmds w cmds = foldl run_image_cmd w cmds"

text \<open>
  Calls of \<open>submitAnswer\<close> that overlap: the store together with the upload requests that
  are sent and not settled yet. A call runs \<open>submitAnswer_begin\<close>; it returns the value it
  throws at once, if any. When the oldest request settles, \<open>submitAnswer_resume\<close> runs.
\<close>

record answer_world =
  store :: answer_state
  in_flight :: "request list"

definition call_submitAnswer ::
  "answer_world \<Rightarrow> int \<Rightarrow> int \<Rightarrow> int option \<Rightarrow> answer_world \<times> thrown option" where
  "call_submitAnswer w missionId problemId spent =
     (case submitAnswer_begin (store w) missionId problemId spent of
        (st1, Inl e) \<Rightarrow> (w\<lparr>store := st1\<rparr>, Some e)
      | (st1, Inr req) \<Rightarrow> (w\<lparr>store := st1, in_flight := in_flight w @ [req]\<rparr>, None))"

definition settle_submitAnswer ::
  "answer_world \<Rightarrow> submit_answer_data outcome \<Rightarrow> answer_world \<times> int settled option" where
  "settle_submitAnswer w out =
     (case in_flight w of
        [] \<Rightarrow> (w, None)
      | req # reqs \<Rightarrow>
          (case submitAnswer_resume (store w) out of
             (st1, r) \<Rightarrow> (w\<lparr>store := st1, in_flight := reqs\<rparr>, Some r)))"

subsection \<open>Example values\<close>

definition example_image :: captured_image where
  "example_image = \<lparr>ci_file = ''page1.jpg'', preview = ''blob:preview-1'', timestamp = 1700000000000\<rparr>"

definition example_problem :: problem where
  "example_problem =
     \<lparr>p_id = 3, p_title = ''Quadratic'', p_content = ''Solve x^2 = 4'', p_solution = None,
      p_difficulty_level = 2, p_topic = ''algebra'', p_subtopic = None,
      p_estimated_time = None, p_keywords = None\<rparr>"

definition example_mission :: mission where
  "example_mission =
     \<lparr>m_id = 7, m_user_id = 1, m_name = ''Daily'', m_description = None,
      m_status = In_progress, m_total_problems = 5, m_completed_problems = 0,
      m_target_score = None, m_actual_score = None, m_start_time = None,
      m_end_time = None, m_problems = None\<rparr>"

definition example_progress :: mission_progress where
  "example_progress =
     \<lparr>mp_mission_id = 7, mp_total_problems = 5, mp_completed_problems = 4,
      mp_current_problem = Some example_problem, mp_progress_percentage = 80,
      mp_estimated_remaining_time = None\<rparr>"

definition example_answer :: "int field \<Rightarrow> answer" where
  "example_answer sc =
     \<lparr>a_id = 42, a_user_id = 1, a_mission_id = 7, a_problem_id = 3,
      a_answer_images = [''uploads/page1.jpg''], a_extracted_text = None,
      a_extracted_markdown = None, a_score = sc, a_ai_feedback = None,
      a_key_concepts_identified = [], a_mistakes_detected = [], a_time_spent = None,
      a_submitted_at = None, a_scored_at = None\<rparr>"

definition envelope :: "'a \<Rightarrow> 'a api_response" where
  "envelope d = \<lparr>success = True, message = ''ok'', data = Some d, resp_timestamp = ''t''\<rparr>"

definition failure_envelope :: "string \<Rightarrow> 'a api_response" where
  "failure_envelope m = \<lparr>success = False, message = m, data = None, resp_timestamp = ''t''\<rparr>"

definition example_result_outcome :: "int field \<Rightarrow> answer_result_data outcome" where
  "example_result_outcome sc =
     Resolves (envelope \<lparr>rd_result = None, rd_answer = example_answer sc,
                         rd_problem_info = (''Quadratic'', ''algebra'')\<rparr>)"

definition staged_world :: answer_world where
  "staged_world =
     \<lparr>store = addCapturedImage initial_answer_state example_image, in_flight = []\<rparr>"

definition pending_world :: answer_world where
  "pending_world = fst (call_submitAnswer staged_world 7 3 None)"

definition active_mission_state :: mission_state where
  "active_mission_state =
     initial_mission_state\<lparr>currentMission := Some example_mission,
                            currentProblem := Some example_problem,
                            missionProgress := Some example_progress\<rparr>"

section \<open>Properties of the answer store\<close>

subsection \<open>Removing a staged image\<close>

lemma filter_indexed_all:
  "(\<And>x i. k \<le> i \<Longrightarrow> p x i) \<Longrightarrow> filter_indexed p k xs = xs"
proof (induction xs arbitrary: k)
  case Nil
  then show ?case by simp
next
  case (Cons x xs)
  have "filter_indexed p (Suc k) xs = xs"
    by (rule Cons.IH) (simp add: Cons.prems)
  moreover have "p x k" by (simp add: Cons.prems)
  ultimately show ?case by simp
qed

lemma filter_indexed_below:
  "index < int k \<Longrightarrow> filter_indexed (\<lambda>_ i. int i \<noteq> index) k xs = xs"
  by (rule filter_indexed_all) auto

lemma filter_indexed_at:
  "filter_indexed (\<lambda>_ i. int i \<noteq> int k + int j) k xs = take j xs @ drop (Suc j) xs"
proof (induction xs arbitrary: k j)
  case Nil
  then show ?case by simp
next
  case (Cons x xs)
  show ?case
  proof (cases j)
    case 0
    have "filter_indexed (\<lambda>_ i. int i \<noteq> int k) (Suc k) xs = xs"
      by (rule filter_indexed_below) simp
    with 0 show ?thesis by simp
  next
    case (Suc j')
    with Cons.IH [of "Suc k" j'] show ?thesis by (simp add: algebra_simps)
  qed
qed

lemma filter_indexed_remove:
  "filter_indexed (\<lambda>_ i. int i \<noteq> index) 0 xs =
     (if 0 \<le> index \<and> index < int (length xs)
      then take (nat index) xs @ drop (Suc (nat index)) xs
      else xs)"
proof (cases "0 \<le> index")
  case True
  then have "index = int 0 + int (nat index)" by simp
  then have "filter_indexed (\<lambda>_ i. int i \<noteq> index) 0 xs =
      take (nat index) xs @ drop (Suc (nat index)) xs"
    using filter_indexed_at [of 0 "nat index" xs] by simp
  with True show ?thesis by auto
next
  case False
  then have "filter_indexed (\<lambda>_ i. int i \<noteq> index) 0 xs = xs"
    by (intro filter_indexed_below) simp
  with False show ?thesis by (simp del: of_nat_eq_iff)
qed

text \<open>
  C10. \<open>removeCapturedImage\<close> is a total function of the store and an integer index, and
  has no failing branch. With an index inside the staged list it removes the element at
  that index and keeps the others in their order, and changes nothing else in the store;
  with any other index it leaves the store as it is.
\<close>

theorem removeCapturedImage_total:
  "(0 \<le> index \<and> index < int (length (capturedImages st)) \<longrightarrow>
      removeCapturedImage st index =
        st\<lparr>capturedImages :=
             take (nat index) (capturedImages st) @ drop (Suc (nat index)) (capturedImages st)\<rparr>)
   \<and> (\<not> (0 \<le> index \<and> index < int (length (capturedImages st))) \<longrightarrow>
        removeCapturedImage st index = st)"
  by (simp add: removeCapturedImage_def filter_indexed_remove)

theorem removeCapturedImage_total_witness:
  "removeCapturedImage (addCapturedImage (addCapturedImage initial_answer_state example_image)
       (example_image\<lparr>preview := ''blob:preview-2''\<rparr>)) 0
     = (addCapturedImage initial_answer_state (example_image\<lparr>preview := ''blob:preview-2''\<rparr>))
   \<and> removeCapturedImage (addCapturedImage initial_answer_state example_image) 5
     = addCapturedImage initial_answer_state example_image
   \<and> removeCapturedImage (addCapturedImage initial_answer_state example_image) (- 1)
     = addCapturedImage initial_answer_state example_image"
  using removeCapturedImage_total
      [of 0 "addCapturedImage (addCapturedImage initial_answer_state example_image)
               (example_image\<lparr>preview := ''blob:preview-2''\<rparr>)"]
    removeCapturedImage_total [of 5 "addCapturedImage initial_answer_state example_image"]
    removeCapturedImage_total [of "- 1" "addCapturedImage initial_answer_state example_image"]
  by (simp add: addCapturedImage_def initial_answer_state_def)

subsection \<open>Polling for the grading result\<close>

lemma ungraded_iff:
  "ungraded out \<longleftrightarrow>
     (\<exists>response d. out = Resolves response \<and> success response \<and> data response = Some d
        \<and> a_score (rd_answer d) = Null)"
  by (auto simp: ungraded_def payload_or_throw_def split: outcome.splits option.splits)

lemma ungraded_step:
  "ungraded out \<Longrightarrow>
   isProcessing (fst (getAnswerResult st answerId out)) \<and>
   fst (snd (getAnswerResult st answerId out)) =
     [Fetch (GetAnswerResult answerId), SetTimeout 5000 answerId]"
  by (auto simp: ungraded_def getAnswerResult_def Let_def split: sum.splits)

lemma settled_step:
  "\<not> ungraded out \<Longrightarrow>
   \<not> isProcessing (fst (getAnswerResult st answerId out)) \<and>
   fst (snd (getAnswerResult st answerId out)) = [Fetch (GetAnswerResult answerId)]"
  by (auto simp: ungraded_def getAnswerResult_def Let_def split: sum.splits)

lemma run_polling_pending:
  assumes "\<forall>out \<in> set pend. ungraded out"
  shows "run_polling st answerId (pend @ rest) =
     (fst (run_polling (fst (run_polling st answerId pend)) answerId rest),
      concat (replicate (length pend)
                [Fetch (GetAnswerResult answerId), SetTimeout 5000 answerId])
      @ snd (run_polling (fst (run_polling st answerId pend)) answerId rest))"
  using assms
proof (induction pend arbitrary: st)
  case Nil
  then show ?case by simp
next
  case (Cons out pend)
  obtain st1 effs r where g: "getAnswerResult st answerId out = (st1, effs, r)"
    by (cases "getAnswerResult st answerId out") auto
  from Cons.prems have "ungraded out" by simp
  from ungraded_step [OF this, of st answerId] g
  have effs: "effs = [Fetch (GetAnswerResult answerId), SetTimeout 5000 answerId]" by simp
  from Cons.prems have "\<forall>out \<in> set pend. ungraded out" by simp
  from Cons.IH [OF this, of st1] show ?case
    by (cases "run_polling st1 answerId pend") (simp add: g effs)
qed

lemma run_polling_settled:
  assumes "\<not> ungraded out"
  shows "run_polling st answerId (out # rest) =
     (fst (getAnswerResult st answerId out), [Fetch (GetAnswerResult answerId)])"
proof -
  obtain st1 effs r where g: "getAnswerResult st answerId out = (st1, effs, r)"
    by (cases "getAnswerResult st answerId out") auto
  from settled_step [OF assms, of st answerId] g
  have "effs = [Fetch (GetAnswerResult answerId)]" by simp
  with g show ?thesis by simp
qed

lemma isProcessing_run_polling_pending:
  "\<forall>out \<in> set pend. ungraded out \<Longrightarrow> pend \<noteq> [] \<Longrightarrow>
   isProcessing (fst (run_polling st answerId pend))"
proof (induction pend arbitrary: st)
  case Nil
  then show ?case by simp
next
  case (Cons out pend)
  obtain st1 effs r where g: "getAnswerResult st answerId out = (st1, effs, r)"
    by (cases "getAnswerResult st answerId out") auto
  from Cons.prems have u: "ungraded out" by simp
  from ungraded_step [OF u, of st answerId] g
  have effs: "effs = [Fetch (GetAnswerResult answerId), SetTimeout 5000 answerId]"
    and p: "isProcessing st1" by simp_all
  show ?case
  proof (cases pend)
    case Nil
    with g effs p show ?thesis by simp
  next
    case (Cons a list)
    with Cons.prems Cons.IH [of st1] have "isProcessing (fst (run_polling st1 answerId pend))"
      by simp
    then show ?thesis by (cases "run_polling st1 answerId pend") (simp add: g effs)
  qed
qed

text \<open>
  C1. A call of \<open>getAnswerResult\<close> whose request returns an answer with a \<open>null\<close> score
  leaves \<open>isProcessing\<close> true and sets one timer of 5000 ms for the same answer
  identifier; a call whose request returns anything else (an answer with a score, a
  failure envelope, a rejected request) leaves \<open>isProcessing\<close> false and sets no timer.
  Hence, for any number of ungraded responses in a row, the store fetches once per
  response, each fetch followed by a 5000 ms timer, and stays in processing; the first
  response that is not ungraded is fetched and ends the polling, whatever follows.
\<close>

theorem getAnswerResult_polling:
  "(ungraded out \<longrightarrow>
      isProcessing (fst (getAnswerResult st answerId out)) \<and>
      fst (snd (getAnswerResult st answerId out)) =
        [Fetch (GetAnswerResult answerId), SetTimeout 5000 answerId])
   \<and> (\<not> ungraded out \<longrightarrow>
      \<not> isProcessing (fst (getAnswerResult st answerId out)) \<and>
      fst (snd (getAnswerResult st answerId out)) = [Fetch (GetAnswerResult answerId)])
   \<and> ((\<forall>p \<in> set pend. ungraded p) \<and> pend \<noteq> [] \<longrightarrow>
      isProcessing (fst (run_polling st answerId pend)) \<and>
      snd (run_polling st answerId pend) =
        concat (replicate (length pend)
                  [Fetch (GetAnswerResult answerId), SetTimeout 5000 answerId]))
   \<and> ((\<forall>p \<in> set pend. ungraded p) \<and> \<not> ungraded final \<longrightarrow>
      \<not> isProcessing (fst (run_polling st answerId (pend @ final # rest))) \<and>
      snd (run_polling st answerId (pend @ final # rest)) =
        concat (replicate (length pend)
                  [Fetch (GetAnswerResult answerId), SetTimeout 5000 answerId])
        @ [Fetch (GetAnswerResult answerId)])"
proof (intro conjI impI)
  assume "ungraded out"
  then show "isProcessing (fst (getAnswerResult st answerId out))"
    and "fst (snd (getAnswerResult st answerId out)) =
        [Fetch (GetAnswerResult answerId), SetTimeout 5000 answerId]"
    using ungraded_step by simp_all
next
  assume "\<not> ungraded out"
  then show "\<not> isProcessing (fst (getAnswerResult st answerId out))"
    and "fst (snd (getAnswerResult st answerId out)) = [Fetch (GetAnswerResult answerId)]"
    using settled_step by simp_all
next
  assume a: "(\<forall>p \<in> set pend. ungraded p) \<and> pend \<noteq> []"
  then show "isProcessing (fst (run_polling st answerId pend))"
    by (simp add: isProcessing_run_polling_pending)
  from a run_polling_pending [of pend st answerId "[]"]
  have "run_polling st answerId pend =
     (fst (run_polling st answerId pend),
      concat (replicate (length pend)
                [Fetch (GetAnswerResult answerId), SetTimeout 5000 answerId]))"
    by simp
  then show "snd (run_polling st answerId pend) =
        concat (replicate (length pend)
                  [Fetch (GetAnswerResult answerId), SetTimeout 5000 answerId])"
    by (metis snd_conv)
next
  assume a: "(\<forall>p \<in> set pend. ungraded p) \<and> \<not> ungraded final"
  then have "run_polling (fst (run_polling st answerId pend)) answerId (final # rest) =
     (fst (getAnswerResult (fst (run_polling st answerId pend)) answerId final),
      [Fetch (GetAnswerResult answerId)])"
    by (intro run_polling_settled) simp
  with a have r: "run_polling st answerId (pend @ final # rest) =
     (fst (getAnswerResult (fst (run_polling st answerId pend)) answerId final),
      concat (replicate (length pend)
                [Fetch (GetAnswerResult answerId), SetTimeout 5000 answerId])
      @ [Fetch (GetAnswerResult answerId)])"
    using run_polling_pending [of pend st answerId "final # rest"]
    by (simp del: run_polling.simps)
  from a settled_step show "\<not> isProcessing (fst (run_polling st answerId (pend @ final # rest)))"
    by (simp add: r)
  from r show "snd (run_polling st answerId (pend @ final # rest)) =
        concat (replicate (length pend)
                  [Fetch (GetAnswerResult answerId), SetTimeout 5000 answerId])
        @ [Fetch (GetAnswerResult answerId)]"
    by simp
qed

lemma ungraded_example: "ungraded (example_result_outcome Null)"
  by (simp add: ungraded_def example_result_outcome_def envelope_def payload_or_throw_def example_answer_def)

lemma graded_example: "\<not> ungraded (example_result_outcome (Value 85))"
  by (simp add: ungraded_def example_result_outcome_def envelope_def payload_or_throw_def example_answer_def)

theorem getAnswerResult_polling_witness:
  "ungraded (example_result_outcome Null) \<and> \<not> ungraded (example_result_outcome (Value 85))
   \<and> snd (run_polling initial_answer_state 42
        [example_result_outcome Null, example_result_outcome Null, example_result_outcome (Value 85)])
     = [Fetch (GetAnswerResult 42), SetTimeout 5000 42,
        Fetch (GetAnswerResult 42), SetTimeout 5000 42,
        Fetch (GetAnswerResult 42)]
   \<and> isProcessing (fst (getAnswerResult initial_answer_state 42 (example_result_outcome Null)))
   \<and> \<not> isProcessing (fst (getAnswerResult initial_answer_state 42 (example_result_outcome (Value 85))))
   \<and> isProcessing (fst (run_polling initial_answer_state 42
        [example_result_outcome Null, example_result_outcome Null]))"
  using getAnswerResult_polling [of "example_result_outcome Null" initial_answer_state 42
      "[example_result_outcome Null, example_result_outcome Null]"
      "example_result_outcome (Value 85)" "[]"]
    getAnswerResult_polling [of "example_result_outcome (Value 85)" initial_answer_state 42
      "[example_result_outcome Null, example_result_outcome Null]"
      "example_result_outcome (Value 85)" "[]"]
    ungraded_example graded_example
  by simp

subsection \<open>Staging and releasing captured images\<close>

lemma length_addCapturedImage:
  "length (capturedImages (addCapturedImage st img)) = Suc (length (capturedImages st))"
  by (simp add: addCapturedImage_def)

lemma length_removeCapturedImage:
  "length (capturedImages (removeCapturedImage st index)) =
     (if 0 \<le> index \<and> index < int (length (capturedImages st))
      then length (capturedImages st) - 1 else length (capturedImages st))"
  by (auto simp: removeCapturedImage_def filter_indexed_remove)

lemma clearCapturedImages_revokes:
  "clearCapturedImages st =
     (st\<lparr>capturedImages := []\<rparr>, map RevokeObjectURL (map preview (capturedImages st)))"
  by (simp add: clearCapturedImages_def)

lemma reset_revokes:
  "snd (reset st) = map RevokeObjectURL (map preview (capturedImages st))
   \<and> capturedImages (fst (reset st)) = []"
  by (simp add: reset_def)

text \<open>
  C2. A staged image is added, removed again with \<open>removeCapturedImage\<close>, and the store
  is then cleared and reset: the staged list is empty and no \<open>URL.revokeObjectURL\<close> was
  ever called, so the preview of the removed image is not released. The same image
  discarded by \<open>clearCapturedImages\<close> has its preview released once.
\<close>

theorem removeCapturedImage_leaks_preview:
  "run_image_cmds (initial_answer_state, [])
      [AddCapturedImage example_image, RemoveCapturedImage 0, ClearCapturedImages, Reset]
     = (initial_answer_state, [])
   \<and> run_image_cmds (initial_answer_state, [])
      [AddCapturedImage example_image, ClearCapturedImages]
     = (initial_answer_state, [RevokeObjectURL ''blob:preview-1''])"
  by (simp add: run_image_cmds_def addCapturedImage_def removeCapturedImage_def
      clearCapturedImages_def reset_def initial_answer_state_def example_image_def)

subsection \<open>Submitting an answer\<close>

text \<open>
  C3. With no staged image, \<open>submitAnswer\<close> sends no request, whatever the mission
  identifier, the problem identifier and the time spent: it records the fixed message
  \<open>msg_image_required\<close> as the error of the store, changes nothing else, and rejects with
  an \<open>Error\<close> of that message. The outcome that a request would have had plays no part.
\<close>

theorem submitAnswer_without_images:
  "capturedImages st = [] \<Longrightarrow>
   submitAnswer st missionId problemId spent out =
     (st\<lparr>answerError := Some \<lparr>err_message = msg_image_required, err_code = None,
                               err_details = None\<rparr>\<rparr>,
      [], Rejected (Error msg_image_required))"
  by (simp add: submitAnswer_def submitAnswer_begin_def app_error_of_def)

theorem submitAnswer_without_images_witness:
  "capturedImages initial_answer_state = [] \<and>
   submitAnswer initial_answer_state 7 3 (Some 12)
       (Resolves (envelope \<lparr>answer_id = 42, status = ''submitted'', image_count = 0\<rparr>)) =
     (initial_answer_state\<lparr>answerError := Some \<lparr>err_message = msg_image_required,
          err_code = None, err_details = None\<rparr>\<rparr>,
      [], Rejected (Error msg_image_required))"
  using submitAnswer_without_images [of initial_answer_state 7 3 "Some 12"
      "Resolves (envelope \<lparr>answer_id = 42, status = ''submitted'', image_count = 0\<rparr>)"]
  by (simp add: initial_answer_state_def)

text \<open>
  C4, as stated, does not hold: in \<open>pending_world\<close> a submission is in flight and
  \<open>isSubmitting\<close> is true; a second call of \<open>submitAnswer\<close> throws nothing and sends
  its own request at once, so that two submissions are in flight.
\<close>

theorem submitAnswer_pending_counterexample:
  "isSubmitting (store pending_world)
   \<and> in_flight pending_world = [SubmitAnswer 7 3 [''page1.jpg''] None]
   \<and> snd (call_submitAnswer pending_world 7 3 None) = None
   \<and> in_flight (fst (call_submitAnswer pending_world 7 3 None)) =
       [SubmitAnswer 7 3 [''page1.jpg''] None, SubmitAnswer 7 3 [''page1.jpg''] None]"
  by (simp add: pending_world_def staged_world_def call_submitAnswer_def submitAnswer_begin_def
      addCapturedImage_def initial_answer_state_def example_image_def)

text \<open>
  When the first of the two submissions settles, \<open>isSubmitting\<close> becomes false while the
  second is still in flight.
\<close>

lemma first_submission_settles:
  "\<not> isSubmitting (store (fst (settle_submitAnswer (fst (call_submitAnswer pending_world 7 3 None))
        (Resolves (envelope \<lparr>answer_id = 42, status = ''submitted'', image_count = 1\<rparr>)))))
   \<and> in_flight (fst (settle_submitAnswer (fst (call_submitAnswer pending_world 7 3 None))
        (Resolves (envelope \<lparr>answer_id = 42, status = ''submitted'', image_count = 1\<rparr>))))
     = [SubmitAnswer 7 3 [''page1.jpg''] None]"
  by (simp add: pending_world_def staged_world_def call_submitAnswer_def submitAnswer_begin_def
      settle_submitAnswer_def submitAnswer_resume_def payload_or_throw_def envelope_def
      addCapturedImage_def initial_answer_state_def example_image_def)

text \<open>
  C4, amended. \<open>submitAnswer\<close> does not read \<open>isSubmitting\<close>: with at least one staged
  image, a call sets \<open>isSubmitting\<close>, clears the error and sends its own upload request
  at once, next to the requests already in flight, whether or not an earlier submission
  is pending.
\<close>

theorem submitAnswer_ignores_isSubmitting:
  "capturedImages (store w) \<noteq> [] \<Longrightarrow>
   call_submitAnswer w missionId problemId spent =
     (w\<lparr>store := (store w)\<lparr>isSubmitting := True, answerError := None\<rparr>,
        in_flight := in_flight w
          @ [SubmitAnswer missionId problemId (map ci_file (capturedImages (store w))) spent]\<rparr>,
      None)"
  by (simp add: call_submitAnswer_def submitAnswer_begin_def)

theorem submitAnswer_ignores_isSubmitting_witness:
  "capturedImages (store pending_world) \<noteq> [] \<and> isSubmitting (store pending_world) \<and>
   call_submitAnswer pending_world 7 3 None =
     (pending_world\<lparr>store := (store pending_world)\<lparr>isSubmitting := True, answerError := None\<rparr>,
        in_flight := in_flight pending_world
          @ [SubmitAnswer 7 3 (map ci_file (capturedImages (store pending_world))) None]\<rparr>,
      None)"
  using submitAnswer_ignores_isSubmitting [of pending_world 7 3 None]
  by (simp add: pending_world_def staged_world_def call_submitAnswer_def submitAnswer_begin_def
      addCapturedImage_def initial_answer_state_def example_image_def)

section \<open>Properties of the mission store\<close>

subsection \<open>Fetching the current mission\<close>

text \<open>
  C5. \<open>fetchCurrentMission\<close>: a success envelope with a payload populates the mission,
  the current problem and the progress from it; a fulfilled request with any other
  envelope clears the three fields and records no error; a rejected request (transport
  failure or a status that is not 2xx) records the error and leaves the mission, the
  current problem and the progress as they were.
\<close>

theorem fetchCurrentMission_outcomes:
  "(success response \<and> data response = Some d \<longrightarrow>
      fetchCurrentMission st (Resolves response) =
        (st\<lparr>currentMission := Some (cm_mission d), currentProblem := cm_current_problem d,
            missionProgress := Some (cm_progress d), isLoading := False, error := None\<rparr>,
         [Fetch GetCurrentMission], Fulfilled ()))
   \<and> (\<not> (success response \<and> data response \<noteq> None) \<longrightarrow>
      fetchCurrentMission st (Resolves response) =
        (st\<lparr>currentMission := None, currentProblem := None, missionProgress := None,
            isLoading := False, error := None\<rparr>,
         [Fetch GetCurrentMission], Fulfilled ()))
   \<and> fetchCurrentMission st (Rejects e) =
        (st\<lparr>isLoading := False,
            error := Some \<lparr>err_message = error_message_of e msg_fetch_mission_error,
                           err_code = None, err_details = None\<rparr>\<rparr>,
         [Fetch GetCurrentMission], Rejected e)
   \<and> currentMission (fst (fetchCurrentMission st (Rejects e))) = currentMission st
   \<and> currentProblem (fst (fetchCurrentMission st (Rejects e))) = currentProblem st
   \<and> missionProgress (fst (fetchCurrentMission st (Rejects e))) = missionProgress st"
  by (auto simp: fetchCurrentMission_def Let_def app_error_of_def split: option.splits bool.splits)

theorem fetchCurrentMission_outcomes_witness:
  "fetchCurrentMission initial_mission_state
      (Resolves (envelope \<lparr>cm_mission = example_mission, cm_current_problem = Some example_problem,
                           cm_progress = example_progress\<rparr>)) =
     (active_mission_state, [Fetch GetCurrentMission], Fulfilled ())
   \<and> fetchCurrentMission active_mission_state (Resolves (failure_envelope ''No active mission'')) =
     (initial_mission_state, [Fetch GetCurrentMission], Fulfilled ())
   \<and> currentMission (fst (fetchCurrentMission active_mission_state (Rejects (Error ''Failed to fetch''))))
       = Some example_mission"
  using fetchCurrentMission_outcomes
      [of "envelope \<lparr>cm_mission = example_mission, cm_current_problem = Some example_problem,
                           cm_progress = example_progress\<rparr>"
          "\<lparr>cm_mission = example_mission, cm_current_problem = Some example_problem,
                           cm_progress = example_progress\<rparr>" initial_mission_state "Error ''Failed to fetch''"]
    fetchCurrentMission_outcomes
      [of "failure_envelope ''No active mission''"
          "\<lparr>cm_mission = example_mission, cm_current_problem = None,
            cm_progress = example_progress\<rparr>"
          active_mission_state "Error ''Failed to fetch''"]
  by (simp add: envelope_def failure_envelope_def active_mission_state_def initial_mission_state_def)

subsection \<open>The timer\<close>

text \<open>
  \<open>if (startTime)\<close> is false for a start instant of 0, the reading of \<open>Date.now()\<close> at
  the epoch itself: the timer then counts as not started.
\<close>

lemma timer_start_at_epoch:
  "startTime st = Some 0 \<Longrightarrow> stopTimer st now = st \<and> getTimeSpent st now = timeSpent st"
  by (simp add: stopTimer_def getTimeSpent_def truthy_def)

text \<open>
  C6. With a start instant recorded (a clock reading other than 0), \<open>stopTimer\<close> adds the
  whole seconds from the start instant to now to \<open>timeSpent\<close> and clears the start
  instant, and \<open>getTimeSpent\<close> returns \<open>timeSpent\<close> plus those seconds. With no start
  instant, \<open>stopTimer\<close> changes nothing and \<open>getTimeSpent\<close> returns \<open>timeSpent\<close>.
  \<open>getTimeSpent\<close> only reads the store; it does not decrease as the clock advances, it no
  longer depends on the clock after \<open>stopTimer\<close>, and it is 0 after \<open>resetTimer\<close>.
\<close>

theorem timer_operations:
  "(startTime st = Some start \<and> start \<noteq> 0 \<longrightarrow>
      stopTimer st now = st\<lparr>timeSpent := timeSpent st + (now - start) div 1000, startTime := None\<rparr>
      \<and> getTimeSpent st now = timeSpent st + (now - start) div 1000)
   \<and> (startTime st = None \<longrightarrow> stopTimer st now = st \<and> getTimeSpent st now = timeSpent st)
   \<and> (now \<le> later \<longrightarrow> getTimeSpent st now \<le> getTimeSpent st later)
   \<and> getTimeSpent (stopTimer st now) later = timeSpent (stopTimer st now)
   \<and> getTimeSpent (resetTimer st) now = 0"
  by (auto simp: stopTimer_def getTimeSpent_def resetTimer_def truthy_def Let_def
      zdiv_mono1 split: option.splits)

theorem timer_operations_witness:
  "stopTimer (startTimer initial_mission_state 1700000000000) 1700000012345 =
     initial_mission_state\<lparr>timeSpent := 12\<rparr>
   \<and> getTimeSpent (startTimer initial_mission_state 1700000000000) 1700000012345 = 12
   \<and> stopTimer initial_mission_state 1700000012345 = initial_mission_state
   \<and> getTimeSpent (startTimer initial_mission_state 1700000000000) 1700000012345
       \<le> getTimeSpent (startTimer initial_mission_state 1700000000000) 1700000013000"
  using timer_operations [of "startTimer initial_mission_state 1700000000000" 1700000000000
      1700000012345 1700000013000]
    timer_operations [of initial_mission_state 0 1700000012345 1700000013000]
  by (simp add: startTimer_def initial_mission_state_def)

subsection \<open>Completing a mission\<close>

lemma startNewMission_failure_envelope:
  "\<not> success response \<Longrightarrow> message response \<noteq> [] \<Longrightarrow>
   startNewMission st missionType (Resolves response) =
     (st\<lparr>isLoading := False, error := Some (app_error_of (message response))\<rparr>,
      [Fetch (StartMission missionType)], Rejected (Error (message response)))"
  by (simp add: startNewMission_def payload_or_throw_def or_default_def error_message_of_def
      Let_def split: option.splits)

lemma completeMission_completed:
  "currentMission st = Some cur \<Longrightarrow> success response \<Longrightarrow> data response = Some d \<Longrightarrow>
   co_completed d \<Longrightarrow>
   completeMission st (Resolves response) out_progress =
     (fst (updateProgress (st\<lparr>currentMission := Some (co_mission d), currentProblem := None,
                              isLoading := False, error := None\<rparr>) out_progress),
      [Fetch (CompleteMission (m_id cur)), Fetch (GetMissionProgress (m_id (co_mission d)))],
      Fulfilled ())"
  by (simp add: completeMission_def updateProgress_def Let_def
      split: outcome.splits option.splits bool.splits)

lemma completeMission_not_finished:
  "currentMission st = Some cur \<Longrightarrow> success response \<Longrightarrow> data response = Some d \<Longrightarrow>
   \<not> co_completed d \<Longrightarrow>
   completeMission st (Resolves response) out_progress =
     (st\<lparr>isLoading := False, error := Some (app_error_of msg_not_finished)\<rparr>,
      [Fetch (CompleteMission (m_id cur))], Rejected (Error msg_not_finished))"
  by (simp add: completeMission_def completeMission_catch_def error_message_of_def Let_def)

lemma completeMission_other_envelope:
  "currentMission st = Some cur \<Longrightarrow> \<not> (success response \<and> data response \<noteq> None) \<Longrightarrow>
   completeMission st (Resolves response) out_progress =
     (st\<lparr>isLoading := True, error := None\<rparr>,
      [Fetch (CompleteMission (m_id cur))], Fulfilled ())"
  by (auto simp: completeMission_def Let_def split: option.splits bool.splits)

text \<open>
  C7. With an active mission, a request answered by a \<open>success: false\<close> envelope: the
  try block of \<open>completeMission\<close> has no else branch, so nothing is thrown. The promise is
  fulfilled, no error is recorded and \<open>isLoading\<close> stays true.
\<close>

theorem completeMission_failure_envelope_resolves:
  "completeMission active_mission_state
      (Resolves (failure_envelope ''Mission has unfinished problems'')) (Rejects NonError) =
     (active_mission_state\<lparr>isLoading := True\<rparr>, [Fetch (CompleteMission 7)], Fulfilled ())"
  by (simp add: completeMission_def active_mission_state_def initial_mission_state_def
      failure_envelope_def example_mission_def Let_def)

subsection \<open>Starting a mission\<close>

text \<open>
  C8. For every mission type, \<open>startNewMission\<close> on a success envelope with a payload
  sends the creation request and no other; it stores the returned mission, takes its
  first problem as the current problem and builds the progress from the payload: the
  identifier and the problem counts of the mission, the first problem, and a percentage
  of 0. It ends loading with no error.
\<close>

theorem startNewMission_success:
  "success response \<Longrightarrow> data response = Some d \<Longrightarrow>
   startNewMission st missionType (Resolves response) =
     (st\<lparr>currentMission := Some (sm_mission d),
         currentProblem := sm_first_problem d,
         missionProgress := Some
           \<lparr>mp_mission_id = m_id (sm_mission d),
            mp_total_problems = m_total_problems (sm_mission d),
            mp_completed_problems = m_completed_problems (sm_mission d),
            mp_current_problem = sm_first_problem d,
            mp_progress_percentage = 0,
            mp_estimated_remaining_time = None\<rparr>,
         isLoading := False, error := None\<rparr>,
      [Fetch (StartMission missionType)], Fulfilled ())"
  by (simp add: startNewMission_def payload_or_throw_def Let_def)

theorem startNewMission_success_witness:
  "success (envelope \<lparr>sm_mission = example_mission, sm_first_problem = Some example_problem\<rparr>)
   \<and> startNewMission initial_mission_state DAILY
      (Resolves (envelope \<lparr>sm_mission = example_mission, sm_first_problem = Some example_problem\<rparr>)) =
     (initial_mission_state\<lparr>currentMission := Some example_mission,
         currentProblem := Some example_problem,
         missionProgress := Some
           \<lparr>mp_mission_id = 7, mp_total_problems = 5, mp_completed_problems = 0,
            mp_current_problem = Some example_problem, mp_progress_percentage = 0,
            mp_estimated_remaining_time = None\<rparr>\<rparr>,
      [Fetch (StartMission DAILY)], Fulfilled ())"
  using startNewMission_success
      [of "envelope \<lparr>sm_mission = example_mission, sm_first_problem = Some example_problem\<rparr>"
          "\<lparr>sm_mission = example_mission, sm_first_problem = Some example_problem\<rparr>"
          initial_mission_state DAILY]
  by (simp add: envelope_def initial_mission_state_def example_mission_def)

subsection \<open>Actions without a current mission\<close>

text \<open>
  C9. With no current mission, \<open>getCurrentProblem\<close>, \<open>updateProgress\<close> and
  \<open>completeMission\<close> send no request, leave the store as it is (so record no error) and
  are fulfilled.
\<close>

theorem no_mission_no_op:
  "currentMission st = None \<Longrightarrow>
   getCurrentProblem st out_problem = (st, [], Fulfilled ())
   \<and> updateProgress st out_progress = (st, [], Fulfilled ())
   \<and> completeMission st out_complete out_progress = (st, [], Fulfilled ())"
  by (simp add: getCurrentProblem_def updateProgress_def completeMission_def)

theorem no_mission_no_op_witness:
  "currentMission initial_mission_state = None
   \<and> getCurrentProblem initial_mission_state (Resolves (envelope example_problem))
       = (initial_mission_state, [], Fulfilled ())
   \<and> updateProgress initial_mission_state (Resolves (envelope example_progress))
       = (initial_mission_state, [], Fulfilled ())
   \<and> completeMission initial_mission_state
        (Resolves (envelope \<lparr>co_mission = example_mission, co_completed = True\<rparr>))
        (Resolves (envelope example_progress))
       = (initial_mission_state, [], Fulfilled ())"
  using no_mission_no_op [of initial_mission_state "Resolves (envelope example_problem)"
      "Resolves (envelope example_progress)"
      "Resolves (envelope \<lparr>co_mission = example_mission, co_completed = True\<rparr>)"]
  by (simp add: initial_mission_state_def)

end
